theory Spec2Isabelle
  imports Main "HOL-Library.AList"
begin

section \<open>The model wrappers of cleverhans/model.py\<close>

text \<open>
  The module defines the abstract class \<open>Model\<close> and its Keras implementation
  \<open>KerasModelWrapper\<close>. Python objects are records, the methods are functions from
  the object (\<open>self\<close>) and the arguments to an outcome: the value returned or the
  exception raised, the object afterwards, and the effects on the world outside the
  object (Keras models built, lines printed).
\<close>

subsection \<open>Exceptions, effects, outcomes\<close>

datatype py_error =
  NotImplementedError string
  | KeyError
  | IndexError
  | ValueError
  | TypeError
  | Exception string

subsection \<open>The Keras objects the wrapper reads\<close>

text \<open>
  Keras is an external framework. Its objects are modelled by the attributes and
  methods the module reads: a layer has a \<open>name\<close>, a configuration dictionary
  (\<open>get_config()\<close>), an \<open>output\<close> tensor and a list of inbound nodes, and a node
  has a list of inbound layers. Tensors are symbolic and stay a type parameter.
\<close>

datatype cfg_value = CfgStr string | CfgInt int | CfgBool bool | CfgNone

datatype 't layer =
  Layer (layer_name: string) (get_config: "(string \<times> cfg_value) list")
    (layer_output: 't) (inbound_nodes: "'t node list")
and 't node =
  Node (inbound_layers: "'t layer list")

text \<open>
  A Keras model: its \<open>layers\<close> and the input tensors of its nodes, which
  \<open>get_input_at(i)\<close> reads.
\<close>

record 't keras_model =
  layers :: "'t layer list"
  input_tensors :: "'t list"

text \<open>\<open>model.get_input_at(i)\<close>: the input tensor at node \<open>i\<close>; Keras raises a
  ValueError when the model has no such node.\<close>

definition get_input_at :: "'t keras_model \<Rightarrow> nat \<Rightarrow> py_error + 't" where
  "get_input_at m i =
     (if i < length (input_tensors m) then Inr (input_tensors m ! i) else Inl ValueError)"

text \<open>\<open>model.get_layer(name)\<close>: the first layer of that name; Keras raises a
  ValueError when there is none.\<close>

definition get_layer :: "'t keras_model \<Rightarrow> string \<Rightarrow> py_error + 't layer" where
  "get_layer m name =
     (case find (\<lambda>l. layer_name l = name) (layers m) of
        None \<Rightarrow> Inl ValueError
      | Some l \<Rightarrow> Inr l)"

text \<open>
  \<open>keras.models.Model(inputs, outputs)\<close> builds a new model from an input tensor and
  either one output tensor or a list of them; the built model is the record of the two
  arguments. Calling a built model on a tensor is the framework's business: it is the
  parameter \<open>call\<close> of every function below that applies a model, and its result is
  again one tensor or a list of tensors.
\<close>

datatype 't outs = One 't | Many "'t list"

datatype 't built_model = Keras_Model (km_input: 't) (km_outputs: "'t outs")

type_synonym 't keras_call = "'t built_model \<Rightarrow> 't \<Rightarrow> 't outs"

datatype 't event = Built "'t built_model" | Printed string

type_synonym ('a, 's, 't) outcome = "(py_error + 'a) \<times> 's \<times> 't event list"

subsection \<open>class Model\<close>

record ('t, 'm) Model =
  model :: 'm
  fprop_cache :: "('t \<times> bool) \<rightharpoonup> (string \<rightharpoonup> 't)"
  train :: bool

text \<open>\<open>Model.__init__(self, model)\<close>\<close>

definition Model_init :: "'m \<Rightarrow> ('t, 'm) Model" where
  "Model_init m = \<lparr>model = m, fprop_cache = Map.empty, train = False\<rparr>"

text \<open>\<open>Model.__call__(self, *args, **kwargs)\<close>; \<open>self.fprop_probs\<close> is the method of
  the object's own class, the first argument here.\<close>

definition Model_call ::
  "('s \<Rightarrow> 'x \<Rightarrow> ('a, 's, 't) outcome) \<Rightarrow> 's \<Rightarrow> 'x \<Rightarrow> ('a, 's, 't) outcome" where
  "Model_call fprop_probs_method self args = fprop_probs_method self args"

text \<open>\<open>Model.set_train(self, train)\<close>\<close>

definition set_train ::
  "('t, 'm, 'z) Model_scheme \<Rightarrow> bool \<Rightarrow> (unit, ('t, 'm, 'z) Model_scheme, 't) outcome" where
  "set_train self tr =
     (let self' = self\<lparr>train := tr\<rparr>;
          state_str = (if tr then ''Training'' else ''Inference'')
      in (Inr (), self', [Printed (''Set the model to '' @ state_str)]))"

text \<open>\<open>Model.fprop_layer(self, x, layer)\<close>: two dictionary reads, each of which raises
  a KeyError on a missing key.\<close>

definition Model_fprop_layer ::
  "('t, 'm, 'z) Model_scheme \<Rightarrow> 't \<Rightarrow> string \<Rightarrow> ('t, ('t, 'm, 'z) Model_scheme, 't) outcome" where
  "Model_fprop_layer self x layer =
     (case fprop_cache self (x, train self) of
        None \<Rightarrow> (Inl KeyError, self, [])
      | Some output_dict \<Rightarrow>
          (case output_dict layer of
             None \<Rightarrow> (Inl KeyError, self, [])
           | Some v \<Rightarrow> (Inr v, self, [])))"

text \<open>\<open>Model.fprop_logits\<close>, \<open>Model.fprop_probs\<close>, \<open>Model.get_layer_names\<close>\<close>

definition Model_fprop_logits ::
  "('t, 'm, 'z) Model_scheme \<Rightarrow> 't \<Rightarrow> ('t outs, ('t, 'm, 'z) Model_scheme, 't) outcome" where
  "Model_fprop_logits self x =
     (Inl (NotImplementedError ''`fprop_logits` not implemented''), self, [])"

definition Model_fprop_probs ::
  "('t, 'm, 'z) Model_scheme \<Rightarrow> 't \<Rightarrow> ('t outs, ('t, 'm, 'z) Model_scheme, 't) outcome" where
  "Model_fprop_probs self x =
     (Inl (NotImplementedError ''`fprop_probs` not implemented''), self, [])"

definition Model_get_layer_names :: "('t, 'm, 'z) Model_scheme \<Rightarrow> py_error + string list" where
  "Model_get_layer_names self = Inl (NotImplementedError ''`get_layer_names` not implemented'')"

text \<open>
  \<open>Model.fprop(self, x)\<close>. On a hit the cached dictionary is returned. On a miss the
  assertion evaluates \<open>self.get_layer_names()\<close> (the method of the object's class, the
  first argument here) and then reads \<open>self.fprop_cache[(x, self.train)]\<close> once per
  layer name: with at least one name the read raises a KeyError, with none the
  assertion holds and the NotImplementedError is raised.
\<close>

definition Model_fprop ::
  "(('t, 'm, 'z) Model_scheme \<Rightarrow> py_error + string list) \<Rightarrow> ('t, 'm, 'z) Model_scheme \<Rightarrow> 't
     \<Rightarrow> (string \<rightharpoonup> 't, ('t, 'm, 'z) Model_scheme, 't) outcome" where
  "Model_fprop get_layer_names_method self x =
     (case fprop_cache self (x, train self) of
        Some output_dict \<Rightarrow> (Inr output_dict, self, [])
      | None \<Rightarrow>
          (case get_layer_names_method self of
             Inl e \<Rightarrow> (Inl e, self, [])
           | Inr names \<Rightarrow>
               (case names of
                  _ # _ \<Rightarrow> (Inl KeyError, self, [])
                | [] \<Rightarrow> (Inl (NotImplementedError ''`fprop` not implemented''), self, []))))"

subsection \<open>class KerasModelWrapper(Model)\<close>

record 't KerasModelWrapper = "('t, 't keras_model) Model" +
  modelw_layer :: "string \<rightharpoonup> 't built_model"
  modelw :: "'t built_model option"

text \<open>\<open>KerasModelWrapper.__init__(self, model)\<close>\<close>

definition KerasModelWrapper_init :: "'t keras_model \<Rightarrow> 't KerasModelWrapper" where
  "KerasModelWrapper_init m =
     \<lparr>model = m, fprop_cache = Map.empty, train = False,
      modelw_layer = Map.empty, modelw = None\<rparr>"

text \<open>\<open>KerasModelWrapper.fprop_layer(self, x, layer)\<close>\<close>

definition fprop_layer ::
  "'t keras_call \<Rightarrow> 't KerasModelWrapper \<Rightarrow> 't \<Rightarrow> string
     \<Rightarrow> ('t outs, 't KerasModelWrapper, 't) outcome" where
  "fprop_layer call self x layer =
     (case modelw_layer self layer of
        Some cached \<Rightarrow> (Inr (call cached x), self, [])
      | None \<Rightarrow>
          (case get_input_at (model self) 0 of
             Inl e \<Rightarrow> (Inl e, self, [])
           | Inr new_input \<Rightarrow>
               (case get_layer (model self) layer of
                  Inl e \<Rightarrow> (Inl e, self, [])
                | Inr l \<Rightarrow>
                    (let target_feat = layer_output l;
                         new_model = Keras_Model new_input (One target_feat);
                         self' = self\<lparr>modelw_layer := (modelw_layer self)(layer \<mapsto> new_model)\<rparr>
                     in (Inr (call new_model x), self', [Built new_model])))))"

text \<open>\<open>KerasModelWrapper._get_softmax_name(self)\<close>: the loop over
  \<open>self.model.layers\<close>, then the function.\<close>

definition is_softmax :: "'t layer \<Rightarrow> bool" where
  "is_softmax layer =
     (let cfg = get_config layer
      in case map_of cfg ''activation'' of
           None \<Rightarrow> False
         | Some v \<Rightarrow> v = CfgStr ''softmax'')"

fun softmax_loop :: "'t layer list \<Rightarrow> py_error + string" where
  "softmax_loop [] = Inl (Exception ''No softmax layers found'')"
| "softmax_loop (layer # rest) =
     (if is_softmax layer then Inr (layer_name layer) else softmax_loop rest)"

definition get_softmax_name :: "'t KerasModelWrapper \<Rightarrow> py_error + string" where
  "get_softmax_name self = softmax_loop (layers (model self))"

text \<open>\<open>KerasModelWrapper._get_logits_name(self)\<close>; each \<open>[0]\<close> raises an IndexError
  on an empty list.\<close>

definition get_logits_name :: "'t KerasModelWrapper \<Rightarrow> py_error + string" where
  "get_logits_name self =
     (case get_softmax_name self of
        Inl e \<Rightarrow> Inl e
      | Inr softmax_name \<Rightarrow>
          (case get_layer (model self) softmax_name of
             Inl e \<Rightarrow> Inl e
           | Inr softmax_layer \<Rightarrow>
               (case inbound_nodes softmax_layer of
                  [] \<Rightarrow> Inl IndexError
                | node # _ \<Rightarrow>
                    (case inbound_layers node of
                       [] \<Rightarrow> Inl IndexError
                     | logits_layer # _ \<Rightarrow> Inr (layer_name logits_layer)))))"

text \<open>\<open>KerasModelWrapper.fprop_logits(self, x)\<close> and
  \<open>KerasModelWrapper.fprop_probs(self, x)\<close>\<close>

definition fprop_logits ::
  "'t keras_call \<Rightarrow> 't KerasModelWrapper \<Rightarrow> 't \<Rightarrow> ('t outs, 't KerasModelWrapper, 't) outcome" where
  "fprop_logits call self x =
     (case get_logits_name self of
        Inl e \<Rightarrow> (Inl e, self, [])
      | Inr logits_name \<Rightarrow> fprop_layer call self x logits_name)"

definition fprop_probs ::
  "'t keras_call \<Rightarrow> 't KerasModelWrapper \<Rightarrow> 't \<Rightarrow> ('t outs, 't KerasModelWrapper, 't) outcome" where
  "fprop_probs call self x =
     (case get_softmax_name self of
        Inl e \<Rightarrow> (Inl e, self, [])
      | Inr name \<Rightarrow> fprop_layer call self x name)"

text \<open>\<open>KerasModelWrapper.get_layer_names(self)\<close>\<close>

definition get_layer_names :: "'t KerasModelWrapper \<Rightarrow> string list" where
  "get_layer_names self = map layer_name (layers (model self))"

text \<open>\<open>KerasModelWrapper._create_modelw(self)\<close>; the list comprehension stops at the
  first \<open>get_layer\<close> that raises. An \<open>Inr\<close> result is a model newly built.\<close>

fun layer_outputs :: "'t keras_model \<Rightarrow> string list \<Rightarrow> py_error + 't list" where
  "layer_outputs m [] = Inr []"
| "layer_outputs m (name # names) =
     (case get_layer m name of
        Inl e \<Rightarrow> Inl e
      | Inr l \<Rightarrow>
          (case layer_outputs m names of
             Inl e \<Rightarrow> Inl e
           | Inr os \<Rightarrow> Inr (layer_output l # os)))"

definition create_modelw :: "'t KerasModelWrapper \<Rightarrow> py_error + 't built_model" where
  "create_modelw self =
     (case get_input_at (model self) 0 of
        Inl e \<Rightarrow> Inl e
      | Inr new_input \<Rightarrow>
          (let layer_names = get_layer_names self
           in case layer_outputs (model self) layer_names of
                Inl e \<Rightarrow> Inl e
              | Inr outputs \<Rightarrow> Inr (Keras_Model new_input (Many outputs))))"

text \<open>
  \<open>OrderedDict(pairs)\<close> inserts the pairs from left to right: a new key goes to the
  end, a key already present keeps its place and takes the new value.
\<close>

definition OrderedDict :: "('k \<times> 'v) list \<Rightarrow> ('k \<times> 'v) list" where
  "OrderedDict pairs = foldl (\<lambda>d (k, v). AList.update k v d) [] pairs"

text \<open>
  \<open>KerasModelWrapper.fprop(self, x)\<close>. \<open>zip\<close> iterates over what the call of
  \<open>self.modelw\<close> returned: a list of tensors is zipped with the names, a single
  symbolic tensor is not iterable (TypeError).
\<close>

definition fprop_outputs ::
  "'t keras_call \<Rightarrow> 't KerasModelWrapper \<Rightarrow> 't built_model \<Rightarrow> 't \<Rightarrow> 't event list
     \<Rightarrow> ((string \<times> 't) list, 't KerasModelWrapper, 't) outcome" where
  "fprop_outputs call self m x evs =
     (let layer_names = get_layer_names self;
          outputs = call m x
      in case outputs of
           Many ts \<Rightarrow> (Inr (OrderedDict (zip layer_names ts)), self, evs)
         | One t \<Rightarrow> (Inl TypeError, self, evs))"

definition fprop ::
  "'t keras_call \<Rightarrow> 't KerasModelWrapper \<Rightarrow> 't
     \<Rightarrow> ((string \<times> 't) list, 't KerasModelWrapper, 't) outcome" where
  "fprop call self x =
     (case modelw self of
        None \<Rightarrow>
          (case create_modelw self of
             Inl e \<Rightarrow> (Inl e, self, [])
           | Inr m \<Rightarrow> fprop_outputs call (self\<lparr>modelw := Some m\<rparr>) m x [Built m])
      | Some m \<Rightarrow> fprop_outputs call self m x [])"

subsection \<open>Sequences of calls on one wrapper\<close>

text \<open>
  The public methods a client can call on a \<open>KerasModelWrapper\<close>, and the object
  after a call (an exception leaves the object as the method had it when raising) and
  after a sequence of calls.
\<close>

datatype 't method_call =
  Call_set_train bool
  | Call_fprop_layer 't string
  | Call_fprop_logits 't
  | Call_fprop_probs 't
  | Call_fprop 't
  | Call_call 't

fun after_call ::
  "'t keras_call \<Rightarrow> 't KerasModelWrapper \<Rightarrow> 't method_call \<Rightarrow> 't KerasModelWrapper" where
  "after_call call self (Call_set_train tr) = fst (snd (set_train self tr))"
| "after_call call self (Call_fprop_layer x layer) = fst (snd (fprop_layer call self x layer))"
| "after_call call self (Call_fprop_logits x) = fst (snd (fprop_logits call self x))"
| "after_call call self (Call_fprop_probs x) = fst (snd (fprop_probs call self x))"
| "after_call call self (Call_fprop x) = fst (snd (fprop call self x))"
| "after_call call self (Call_call x) = fst (snd (Model_call (fprop_probs call) self x))"

definition after_calls ::
  "'t keras_call \<Rightarrow> 't KerasModelWrapper \<Rightarrow> 't method_call list \<Rightarrow> 't KerasModelWrapper" where
  "after_calls call self cs = foldl (after_call call) self cs"

text \<open>
  The model \<open>fprop_layer\<close> builds for a layer name on a cache miss, and the
  consistency of the per-layer cache: every cached model is the one that would be built
  for its key.
\<close>

definition layer_model :: "'t KerasModelWrapper \<Rightarrow> string \<Rightarrow> py_error + 't built_model" where
  "layer_model self layer =
     (case get_input_at (model self) 0 of
        Inl e \<Rightarrow> Inl e
      | Inr new_input \<Rightarrow>
          (case get_layer (model self) layer of
             Inl e \<Rightarrow> Inl e
           | Inr l \<Rightarrow> Inr (Keras_Model new_input (One (layer_output l)))))"

definition cache_ok :: "'t KerasModelWrapper \<Rightarrow> bool" where
  "cache_ok self = (\<forall>layer m. modelw_layer self layer = Some m \<longrightarrow> layer_model self layer = Inr m)"

text \<open>
  The consistency of the cache of \<open>fprop\<close>: a cached all-layers model is the one
  \<open>_create_modelw\<close> builds.
\<close>

definition modelw_ok :: "'t KerasModelWrapper \<Rightarrow> bool" where
  "modelw_ok self =
     (case modelw self of None \<Rightarrow> True | Some m \<Rightarrow> create_modelw self = Inr m)"

subsection \<open>Example models\<close>

text \<open>
  A three-layer classifier (flatten, dense logits, softmax activation) and a
  four-layer one whose second layer is softmax-activated as well. Tensors are named by
  strings; the example call of a built model writes the application out.
\<close>

definition ex_flatten :: "string layer" where
  "ex_flatten = Layer ''flatten_1'' [(''name'', CfgStr ''flatten_1'')] ''flatten_1/Reshape:0'' []"

definition ex_dense :: "string layer" where
  "ex_dense =
     Layer ''dense_1'' [(''units'', CfgInt 10), (''activation'', CfgStr ''linear'')]
       ''dense_1/BiasAdd:0'' [Node [ex_flatten]]"

definition ex_softmax :: "string layer" where
  "ex_softmax =
     Layer ''activation_1'' [(''activation'', CfgStr ''softmax'')]
       ''activation_1/Softmax:0'' [Node [ex_dense]]"

definition ex_model :: "string keras_model" where
  "ex_model = \<lparr>layers = [ex_flatten, ex_dense, ex_softmax], input_tensors = [''input_1:0'']\<rparr>"

definition ex_attention :: "string layer" where
  "ex_attention =
     Layer ''attention_1'' [(''activation'', CfgStr ''softmax'')]
       ''attention_1/Softmax:0'' [Node [ex_flatten]]"

definition ex_model2 :: "string keras_model" where
  "ex_model2 =
     \<lparr>layers = [ex_flatten, ex_attention, ex_dense, ex_softmax],
      input_tensors = [''input_1:0'']\<rparr>"

definition ex_apply :: "string \<Rightarrow> string \<Rightarrow> string" where
  "ex_apply x t = t @ ''@'' @ x"

definition ex_call :: "string keras_call" where
  "ex_call m x =
     (case km_outputs m of
        One t \<Rightarrow> One (ex_apply x t)
      | Many ts \<Rightarrow> Many (map (ex_apply x) ts))"

definition ex_wrapper :: "string KerasModelWrapper" where
  "ex_wrapper = KerasModelWrapper_init ex_model"

definition ex_wrapper2 :: "string KerasModelWrapper" where
  "ex_wrapper2 = KerasModelWrapper_init ex_model2"






text \<open>An object of the base class with one cached output dictionary.\<close>

definition ex_base :: "(string, unit) Model" where
  "ex_base =
     (Model_init ())\<lparr>fprop_cache :=
        [(''x:0'', False) \<mapsto> [''logits'' \<mapsto> ''logits:0'', ''probs'' \<mapsto> ''probs:0'']]\<rparr>"

section \<open>Properties\<close>

subsection \<open>The base class\<close>

text \<open>
  C10. For every boolean \<open>t\<close>, \<open>set_train(t)\<close> sets the field \<open>train\<close> to \<open>t\<close> and
  leaves every other field unchanged: \<open>model\<close> and \<open>fprop_cache\<close> of any \<open>Model\<close>
  (the object after the call is the object before with \<open>train\<close> updated, whatever its
  class adds), and \<open>modelw_layer\<close> and \<open>modelw\<close> of a \<open>KerasModelWrapper\<close>.
\<close>

theorem set_train_frame:
  fixes self :: "('t, 'm, 'z) Model_scheme" and w :: "'u KerasModelWrapper"
  shows "fst (snd (set_train self t)) = self\<lparr>train := t\<rparr>
    \<and> train (fst (snd (set_train self t))) = t
    \<and> model (fst (snd (set_train self t))) = model self
    \<and> fprop_cache (fst (snd (set_train self t))) = fprop_cache self
    \<and> Model.more (fst (snd (set_train self t))) = Model.more self
    \<and> train (fst (snd (set_train w t))) = t
    \<and> model (fst (snd (set_train w t))) = model w
    \<and> fprop_cache (fst (snd (set_train w t))) = fprop_cache w
    \<and> modelw_layer (fst (snd (set_train w t))) = modelw_layer w
    \<and> modelw (fst (snd (set_train w t))) = modelw w"
  by (simp add: set_train_def)

theorem set_train_frame_witness:
  "train (fst (snd (set_train ex_wrapper True))) = True
    \<and> model (fst (snd (set_train ex_wrapper True))) = ex_model
    \<and> modelw (fst (snd (set_train ex_wrapper True))) = None
    \<and> fst (snd (set_train ex_base True)) = ex_base\<lparr>train := True\<rparr>"
  using set_train_frame [of ex_base True ex_wrapper]
  by (simp add: ex_wrapper_def KerasModelWrapper_init_def)

text \<open>
  C5. If the pair of the input \<open>x\<close> and the current train flag is a key of
  \<open>fprop_cache\<close>, then \<open>Model.fprop(x)\<close> returns exactly the dictionary stored under
  that key, changes no field of the object and has no other effect; nothing but the
  cache entry decides the result (not even the class's \<open>get_layer_names\<close>).
\<close>

theorem Model_fprop_hit:
  assumes "fprop_cache self (x, train self) = Some output_dict"
  shows "Model_fprop get_layer_names_method self x = (Inr output_dict, self, [])"
  using assms by (simp add: Model_fprop_def)

theorem Model_fprop_hit_witness:
  "fprop_cache ex_base (''x:0'', train ex_base)
      = Some [''logits'' \<mapsto> ''logits:0'', ''probs'' \<mapsto> ''probs:0'']
    \<and> Model_fprop Model_get_layer_names ex_base ''x:0''
      = (Inr [''logits'' \<mapsto> ''logits:0'', ''probs'' \<mapsto> ''probs:0''], ex_base, [])"
proof -
  have hit: "fprop_cache ex_base (''x:0'', train ex_base)
      = Some [''logits'' \<mapsto> ''logits:0'', ''probs'' \<mapsto> ''probs:0'']"
    by (simp add: ex_base_def Model_init_def)
  from Model_fprop_hit [OF hit] hit show ?thesis by simp
qed

text \<open>
  C8. When the pair of \<open>x\<close> and the current train flag is not a key of
  \<open>fprop_cache\<close>, the base class's \<open>fprop_layer(x, layer)\<close> raises a KeyError. The
  method only reads the cache: the object is the same afterwards and nothing else
  happens. It returns a value if and only if the cache holds, under that pair, a
  dictionary that has the layer name as a key, and the value is the one stored there.
\<close>

theorem Model_fprop_layer_reads_cache:
  "(fprop_cache self (x, train self) = None
      \<longrightarrow> Model_fprop_layer self x layer = (Inl KeyError, self, []))
    \<and> fst (snd (Model_fprop_layer self x layer)) = self
    \<and> snd (snd (Model_fprop_layer self x layer)) = []
    \<and> ((\<exists>v. fst (Model_fprop_layer self x layer) = Inr v)
        \<longleftrightarrow> (\<exists>d. fprop_cache self (x, train self) = Some d \<and> layer \<in> dom d))
    \<and> (\<forall>v. fst (Model_fprop_layer self x layer) = Inr v
        \<longleftrightarrow> (\<exists>d. fprop_cache self (x, train self) = Some d \<and> d layer = Some v))"
  by (auto simp: Model_fprop_layer_def split: option.splits)

theorem Model_fprop_layer_reads_cache_witness:
  "fprop_cache ex_base (''y:0'', train ex_base) = None
    \<and> Model_fprop_layer ex_base ''y:0'' ''logits'' = (Inl KeyError, ex_base, [])
    \<and> fst (Model_fprop_layer ex_base ''x:0'' ''logits'') = Inr ''logits:0''
    \<and> fst (Model_fprop_layer ex_base ''x:0'' ''hidden'') = Inl KeyError"
proof -
  have miss: "fprop_cache ex_base (''y:0'', train ex_base) = None"
    by (simp add: ex_base_def Model_init_def)
  have "Model_fprop_layer ex_base ''y:0'' ''logits'' = (Inl KeyError, ex_base, [])"
    using Model_fprop_layer_reads_cache [of ex_base "''y:0''" "''logits''"] miss by blast
  moreover have "fst (Model_fprop_layer ex_base ''x:0'' ''logits'') = Inr ''logits:0''"
    by (simp add: Model_fprop_layer_def ex_base_def Model_init_def)
  moreover have "fst (Model_fprop_layer ex_base ''x:0'' ''hidden'') = Inl KeyError"
    by (simp add: Model_fprop_layer_def ex_base_def Model_init_def)
  ultimately show ?thesis using miss by simp
qed

subsection \<open>The two caches of the Keras wrapper\<close>

text \<open>What \<open>fprop_layer\<close> does, by the three ways through it.\<close>

lemma fprop_layer_hit:
  "modelw_layer w L = Some m \<Longrightarrow> fprop_layer call w x L = (Inr (call m x), w, [])"
  by (simp add: fprop_layer_def)

lemma layer_model_Inr:
  assumes "layer_model w L = Inr m"
  obtains inp l where "get_input_at (model w) 0 = Inr inp" "get_layer (model w) L = Inr l"
    "m = Keras_Model inp (One (layer_output l))"
proof (cases "get_input_at (model w) 0")
  case (Inl e)
  with assms show ?thesis by (simp add: layer_model_def)
next
  case inp: (Inr inp)
  show ?thesis
  proof (cases "get_layer (model w) L")
    case (Inl e)
    with assms inp show ?thesis by (simp add: layer_model_def)
  next
    case (Inr l)
    with assms inp have "m = Keras_Model inp (One (layer_output l))"
      by (simp add: layer_model_def)
    with inp Inr that show ?thesis by blast
  qed
qed

lemma fprop_layer_miss:
  assumes "modelw_layer w L = None" "layer_model w L = Inr m"
  shows "fprop_layer call w x L
     = (Inr (call m x), w\<lparr>modelw_layer := (modelw_layer w)(L \<mapsto> m)\<rparr>, [Built m])"
proof -
  from assms(2) obtain inp l where "get_input_at (model w) 0 = Inr inp"
    "get_layer (model w) L = Inr l" "m = Keras_Model inp (One (layer_output l))"
    by (rule layer_model_Inr)
  with assms(1) show ?thesis by (simp add: fprop_layer_def Let_def)
qed


lemma layer_model_Inl:
  assumes "layer_model w L = Inl e"
  shows "get_input_at (model w) 0 = Inl e
    \<or> (\<exists>inp. get_input_at (model w) 0 = Inr inp \<and> get_layer (model w) L = Inl e)"
proof (cases "get_input_at (model w) 0")
  case (Inl e')
  with assms show ?thesis by (simp add: layer_model_def)
next
  case inp: (Inr inp)
  show ?thesis
  proof (cases "get_layer (model w) L")
    case (Inl e')
    with assms inp show ?thesis by (simp add: layer_model_def)
  next
    case (Inr l)
    with assms inp show ?thesis by (simp add: layer_model_def)
  qed
qed

lemma fprop_layer_miss_error:
  assumes "modelw_layer w L = None" "layer_model w L = Inl e"
  shows "fprop_layer call w x L = (Inl e, w, [])"
proof -
  from layer_model_Inl [OF assms(2)] show ?thesis
  proof
    assume "get_input_at (model w) 0 = Inl e"
    with assms(1) show ?thesis by (simp add: fprop_layer_def)
  next
    assume "\<exists>inp. get_input_at (model w) 0 = Inr inp \<and> get_layer (model w) L = Inl e"
    then obtain inp where "get_input_at (model w) 0 = Inr inp" "get_layer (model w) L = Inl e"
      by blast
    with assms(1) show ?thesis by (simp add: fprop_layer_def)
  qed
qed

lemma fprop_layer_cases:
  obtains (hit) m where "modelw_layer w L = Some m"
      "fprop_layer call w x L = (Inr (call m x), w, [])"
  | (built) m where "modelw_layer w L = None" "layer_model w L = Inr m"
      "fprop_layer call w x L
         = (Inr (call m x), w\<lparr>modelw_layer := (modelw_layer w)(L \<mapsto> m)\<rparr>, [Built m])"
  | (error) e where "modelw_layer w L = None" "layer_model w L = Inl e"
      "fprop_layer call w x L = (Inl e, w, [])"
proof (cases "modelw_layer w L")
  case (Some m)
  from hit [OF Some fprop_layer_hit [OF Some]] show ?thesis .
next
  case None
  show ?thesis
  proof (cases "layer_model w L")
    case (Inl e)
    from error [OF None Inl fprop_layer_miss_error [OF None Inl]] show ?thesis .
  next
    case (Inr m)
    from built [OF None Inr fprop_layer_miss [OF None Inr]] show ?thesis .
  qed
qed

lemma layer_model_frame:
  "model w' = model w \<Longrightarrow> layer_model w' L = layer_model w L"
  by (simp add: layer_model_def split: sum.split)

lemma create_modelw_frame:
  "model w' = model w \<Longrightarrow> create_modelw w' = create_modelw w"
  by (simp add: create_modelw_def get_layer_names_def Let_def split: sum.split)

lemma fprop_layer_model: "model (fst (snd (fprop_layer call w x L))) = model w"
  by (cases rule: fprop_layer_cases [of w L call x]) simp_all

lemma fprop_layer_modelw: "modelw (fst (snd (fprop_layer call w x L))) = modelw w"
  by (cases rule: fprop_layer_cases [of w L call x]) simp_all

lemma fprop_layer_train: "train (fst (snd (fprop_layer call w x L))) = train w"
  by (cases rule: fprop_layer_cases [of w L call x]) simp_all

lemma fprop_layer_keeps:
  assumes "modelw_layer w K = Some m"
  shows "modelw_layer (fst (snd (fprop_layer call w x L))) K = Some m"
proof (cases rule: fprop_layer_cases [of w L call x])
  case (built m')
  with assms have "K \<noteq> L" by auto
  with assms built show ?thesis by simp
qed (use assms in simp_all)

lemma fprop_layer_cache_ok:
  assumes "cache_ok w"
  shows "cache_ok (fst (snd (fprop_layer call w x L)))"
proof (cases rule: fprop_layer_cases [of w L call x])
  case (built m)
  have "layer_model (w\<lparr>modelw_layer := (modelw_layer w)(L \<mapsto> m)\<rparr>) K = layer_model w K" for K
    by (rule layer_model_frame) simp
  with assms built show ?thesis
    by (simp add: cache_ok_def)
qed (use assms in simp_all)

text \<open>What \<open>fprop\<close> does, and what a call of any method leaves of the object.\<close>

lemma fprop_outputs_state: "fst (snd (fprop_outputs call w m x evs)) = w"
  by (simp add: fprop_outputs_def Let_def split: outs.split)

lemma fprop_outputs_events: "snd (snd (fprop_outputs call w m x evs)) = evs"
  by (simp add: fprop_outputs_def Let_def split: outs.split)

lemma fprop_outputs_result:
  "get_layer_names w' = get_layer_names w \<Longrightarrow>
   fst (fprop_outputs call w' m x evs') = fst (fprop_outputs call w m x evs)"
  by (simp add: fprop_outputs_def Let_def split: outs.split)

lemma fprop_cases:
  obtains (cached) m where "modelw w = Some m" "fprop call w x = fprop_outputs call w m x []"
  | (built) m where "modelw w = None" "create_modelw w = Inr m"
      "fprop call w x = fprop_outputs call (w\<lparr>modelw := Some m\<rparr>) m x [Built m]"
  | (error) e where "modelw w = None" "create_modelw w = Inl e"
      "fprop call w x = (Inl e, w, [])"
proof (cases "modelw w")
  case (Some m)
  then have "fprop call w x = fprop_outputs call w m x []"
    by (simp add: fprop_def)
  from cached [OF Some this] show ?thesis .
next
  case None
  show ?thesis
  proof (cases "create_modelw w")
    case (Inl e)
    with None have "fprop call w x = (Inl e, w, [])" by (simp add: fprop_def)
    from error [OF None Inl this] show ?thesis .
  next
    case (Inr m)
    with None have "fprop call w x = fprop_outputs call (w\<lparr>modelw := Some m\<rparr>) m x [Built m]"
      by (simp add: fprop_def)
    from built [OF None Inr this] show ?thesis .
  qed
qed

lemma fprop_model: "model (fst (snd (fprop call w x))) = model w"
  by (cases rule: fprop_cases [of w call x]) (simp_all add: fprop_outputs_state)

lemma fprop_modelw_layer: "modelw_layer (fst (snd (fprop call w x))) = modelw_layer w"
  by (cases rule: fprop_cases [of w call x]) (simp_all add: fprop_outputs_state)

lemma fprop_keeps_modelw:
  "modelw w = Some m \<Longrightarrow> modelw (fst (snd (fprop call w x))) = Some m"
  by (cases rule: fprop_cases [of w call x]) (simp_all add: fprop_outputs_state)

lemma fprop_logits_state:
  "fst (snd (fprop_logits call w x)) = w
    \<or> (\<exists>L. fst (snd (fprop_logits call w x)) = fst (snd (fprop_layer call w x L)))"
  by (cases "get_logits_name w") (simp_all add: fprop_logits_def, blast)

lemma fprop_probs_state:
  "fst (snd (fprop_probs call w x)) = w
    \<or> (\<exists>L. fst (snd (fprop_probs call w x)) = fst (snd (fprop_layer call w x L)))"
  by (cases "get_softmax_name w") (simp_all add: fprop_probs_def, blast)

lemma after_call_cases:
  "after_call call w c = w
    \<or> (\<exists>t. after_call call w c = w\<lparr>train := t\<rparr>)
    \<or> (\<exists>x L. after_call call w c = fst (snd (fprop_layer call w x L)))
    \<or> (\<exists>x. after_call call w c = fst (snd (fprop call w x)))"
proof (cases c)
  case (Call_set_train t)
  then show ?thesis by (simp add: set_train_def) blast
next
  case (Call_fprop_layer x L)
  then show ?thesis by simp blast
next
  case (Call_fprop_logits x)
  with fprop_logits_state [of call w x] show ?thesis by simp blast
next
  case (Call_fprop_probs x)
  with fprop_probs_state [of call w x] show ?thesis by simp blast
next
  case (Call_fprop x)
  then show ?thesis by simp blast
next
  case (Call_call x)
  with fprop_probs_state [of call w x] show ?thesis by (simp add: Model_call_def) blast
qed

lemma after_call_model: "model (after_call call w c) = model w"
  using after_call_cases [of call w c]
  by (elim disjE exE) (simp_all add: fprop_layer_model fprop_model)

lemma after_call_keeps_layer:
  assumes "modelw_layer w K = Some m"
  shows "modelw_layer (after_call call w c) K = Some m"
  using after_call_cases [of call w c] assms
  by (elim disjE exE) (simp_all add: fprop_layer_keeps fprop_modelw_layer)

lemma after_call_keeps_modelw:
  assumes "modelw w = Some m"
  shows "modelw (after_call call w c) = Some m"
  using after_call_cases [of call w c] assms
  by (elim disjE exE) (simp_all add: fprop_layer_modelw fprop_keeps_modelw)

lemma after_calls_model: "model (after_calls call w cs) = model w"
  unfolding after_calls_def
  by (induction cs arbitrary: w) (simp_all add: after_call_model)

lemma after_calls_keeps_layer:
  "modelw_layer w K = Some m \<Longrightarrow> modelw_layer (after_calls call w cs) K = Some m"
  unfolding after_calls_def
  by (induction cs arbitrary: w) (simp_all add: after_call_keeps_layer)

lemma after_calls_keeps_modelw:
  "modelw w = Some m \<Longrightarrow> modelw (after_calls call w cs) = Some m"
  unfolding after_calls_def
  by (induction cs arbitrary: w) (simp_all add: after_call_keeps_modelw)

lemma fprop_layer_train_update:
  "fprop_layer call (w\<lparr>train := t\<rparr>) x L
     = (fst (fprop_layer call w x L), (fst (snd (fprop_layer call w x L)))\<lparr>train := t\<rparr>,
        snd (snd (fprop_layer call w x L)))"
proof (cases rule: fprop_layer_cases [of w L call x])
  case (hit m)
  then have "modelw_layer (w\<lparr>train := t\<rparr>) L = Some m" by simp
  from fprop_layer_hit [OF this] hit show ?thesis by simp
next
  case (built m)
  have "modelw_layer (w\<lparr>train := t\<rparr>) L = None" using built by simp
  moreover have "layer_model (w\<lparr>train := t\<rparr>) L = Inr m"
    using built layer_model_frame [of "w\<lparr>train := t\<rparr>" w L] by simp
  ultimately show ?thesis using fprop_layer_miss [of "w\<lparr>train := t\<rparr>" L m call x] built
    by simp
next
  case (error e)
  have "modelw_layer (w\<lparr>train := t\<rparr>) L = None" using error by simp
  moreover have "layer_model (w\<lparr>train := t\<rparr>) L = Inl e"
    using error layer_model_frame [of "w\<lparr>train := t\<rparr>" w L] by simp
  ultimately show ?thesis
    using fprop_layer_miss_error [of "w\<lparr>train := t\<rparr>" L e call x] error by simp
qed

text \<open>
  C9. The result of \<open>KerasModelWrapper.fprop_layer(x, layer)\<close> does not depend on the
  field \<open>train\<close>: on two objects that differ in \<open>train\<close> only, as \<open>set_train\<close>
  leaves them, the call returns the same value (or raises the same exception) and has
  the same effects, and the objects afterwards still differ in \<open>train\<close> only. The
  per-layer cache is read by the layer name alone.
\<close>

theorem fprop_layer_train_independent:
  "fst (fprop_layer call (w\<lparr>train := t\<rparr>) x L) = fst (fprop_layer call w x L)
    \<and> snd (snd (fprop_layer call (w\<lparr>train := t\<rparr>) x L)) = snd (snd (fprop_layer call w x L))
    \<and> fst (snd (fprop_layer call (w\<lparr>train := t\<rparr>) x L))
        = (fst (snd (fprop_layer call w x L)))\<lparr>train := t\<rparr>
    \<and> fst (fprop_layer call (fst (snd (set_train w t1))) x L)
        = fst (fprop_layer call (fst (snd (set_train w t2))) x L)"
  by (simp add: fprop_layer_train_update set_train_def)

theorem fprop_layer_train_independent_witness:
  "fst (fprop_layer ex_call (fst (snd (set_train ex_wrapper True))) ''x:0'' ''dense_1'')
     = fst (fprop_layer ex_call (fst (snd (set_train ex_wrapper False))) ''x:0'' ''dense_1'')
   \<and> fst (fprop_layer ex_call (ex_wrapper\<lparr>train := True\<rparr>) ''x:0'' ''dense_1'')
     = Inr (One ''dense_1/BiasAdd:0@x:0'')"
proof -
  note indep = fprop_layer_train_independent
      [where call = ex_call and w = ex_wrapper and t = True and x = "''x:0''" and L = "''dense_1''"
         and ?t1.0 = True and ?t2.0 = False]
  have v: "fst (fprop_layer ex_call ex_wrapper ''x:0'' ''dense_1'')
      = Inr (One ''dense_1/BiasAdd:0@x:0'')"
    by (simp add: fprop_layer_def ex_wrapper_def KerasModelWrapper_init_def ex_model_def
        get_input_at_def get_layer_def ex_flatten_def ex_dense_def ex_softmax_def ex_call_def
        ex_apply_def Let_def)
  from indep have 1: "fst (fprop_layer ex_call (ex_wrapper\<lparr>train := True\<rparr>) ''x:0'' ''dense_1'')
      = fst (fprop_layer ex_call ex_wrapper ''x:0'' ''dense_1'')"
    by (rule conjunct1)
  from indep have 2:
    "fst (fprop_layer ex_call (fst (snd (set_train ex_wrapper True))) ''x:0'' ''dense_1'')
      = fst (fprop_layer ex_call (fst (snd (set_train ex_wrapper False))) ''x:0'' ''dense_1'')"
    by blast
  from 1 v have 3: "fst (fprop_layer ex_call (ex_wrapper\<lparr>train := True\<rparr>) ''x:0'' ''dense_1'')
      = Inr (One ''dense_1/BiasAdd:0@x:0'')"
    by (rule trans)
  from 2 3 show ?thesis by (rule conjI)
qed

text \<open>
  C6. Calling a model object \<open>m(x)\<close> is calling \<open>m.fprop_probs(x)\<close>, the method of the
  object's own class: same value or exception, same object afterwards, same effects. For
  a \<open>KerasModelWrapper\<close> whose softmax layer is named \<open>s\<close> this is
  \<open>fprop_layer(x, s)\<close>, the output of the softmax layer; for an object of the base
  class it is the NotImplementedError of \<open>Model.fprop_probs\<close>.
\<close>

theorem call_is_fprop_probs:
  fixes w :: "'t KerasModelWrapper" and b :: "('u, 'm, 'z) Model_scheme"
  shows "Model_call fprop_probs_method self x = fprop_probs_method self x
    \<and> Model_call (fprop_probs call) w y = fprop_probs call w y
    \<and> (get_softmax_name w = Inr s \<longrightarrow> Model_call (fprop_probs call) w y = fprop_layer call w y s)
    \<and> Model_call Model_fprop_probs b z = Model_fprop_probs b z"
  by (simp add: Model_call_def fprop_probs_def)

theorem call_is_fprop_probs_witness:
  "get_softmax_name ex_wrapper = Inr ''activation_1''
    \<and> Model_call (fprop_probs ex_call) ex_wrapper ''x:0''
        = fprop_layer ex_call ex_wrapper ''x:0'' ''activation_1''
    \<and> fst (fprop_layer ex_call ex_wrapper ''x:0'' ''activation_1'')
        = Inr (One ''activation_1/Softmax:0@x:0'')"
proof -
  have s: "get_softmax_name ex_wrapper = Inr ''activation_1''"
    by (simp add: get_softmax_name_def ex_wrapper_def KerasModelWrapper_init_def ex_model_def
        is_softmax_def ex_flatten_def ex_dense_def ex_softmax_def)
  have v: "fst (fprop_layer ex_call ex_wrapper ''x:0'' ''activation_1'')
      = Inr (One ''activation_1/Softmax:0@x:0'')"
    by (simp add: fprop_layer_def ex_wrapper_def KerasModelWrapper_init_def ex_model_def
        get_input_at_def get_layer_def ex_flatten_def ex_dense_def ex_softmax_def ex_call_def
        ex_apply_def Let_def)
  from s call_is_fprop_probs
      [where call = ex_call and w = ex_wrapper and y = "''x:0''" and s = "''activation_1''"
         and fprop_probs_method = "fprop_probs ex_call" and self = ex_wrapper and x = "''x:0''"
         and b = ex_base and z = "''x:0''"]
  have "Model_call (fprop_probs ex_call) ex_wrapper ''x:0''
        = fprop_layer ex_call ex_wrapper ''x:0'' ''activation_1''"
    by blast
  with s v show ?thesis by blast
qed

lemma softmax_loop_first:
  "filter is_softmax ls \<noteq> [] \<Longrightarrow>
   softmax_loop ls = Inr (layer_name (hd (filter is_softmax ls)))"
  by (induction ls) (simp_all split: if_splits)

lemma softmax_loop_none:
  "filter is_softmax ls = [] \<Longrightarrow> softmax_loop ls = Inl (Exception ''No softmax layers found'')"
  by (induction ls) (simp_all split: if_splits)

subsection \<open>Locating the softmax layer and the logits\<close>

text \<open>
  C2 (as amended). For every wrapped model with at least one layer whose configuration
  has activation \<open>softmax\<close>, \<open>_get_softmax_name\<close> returns the name of the first such
  layer in the order of \<open>model.layers\<close>: no layer before it is softmax-activated. When
  the model has exactly one softmax-activated layer, that layer is also the last one.
\<close>

theorem get_softmax_name_first:
  assumes "\<exists>l\<in>set (layers (model w)). is_softmax l"
  shows "get_softmax_name w = Inr (layer_name (hd (filter is_softmax (layers (model w)))))
    \<and> (\<exists>pre l post. layers (model w) = pre @ l # post \<and> is_softmax l
          \<and> (\<forall>p\<in>set pre. \<not> is_softmax p) \<and> get_softmax_name w = Inr (layer_name l))
    \<and> (length (filter is_softmax (layers (model w))) = 1 \<longrightarrow>
          get_softmax_name w = Inr (layer_name (last (filter is_softmax (layers (model w))))))"
proof -
  let ?ls = "layers (model w)"
  from assms have ne: "filter is_softmax ?ls \<noteq> []"
    by (simp add: filter_empty_conv)
  then have first: "get_softmax_name w = Inr (layer_name (hd (filter is_softmax ?ls)))"
    by (simp add: get_softmax_name_def softmax_loop_first)
  from assms obtain pre l post where split: "?ls = pre @ l # post" "is_softmax l"
      "\<forall>p\<in>set pre. \<not> is_softmax p"
    using split_list_first_prop [of ?ls is_softmax] by blast
  then have "filter is_softmax ?ls = l # filter is_softmax post"
    by (simp add: filter_empty_conv)
  with first have "get_softmax_name w = Inr (layer_name l)" by simp
  with split have ex: "\<exists>pre l post. ?ls = pre @ l # post \<and> is_softmax l
      \<and> (\<forall>p\<in>set pre. \<not> is_softmax p) \<and> get_softmax_name w = Inr (layer_name l)"
    by blast
  have "length (filter is_softmax ?ls) = 1 \<longrightarrow>
      get_softmax_name w = Inr (layer_name (last (filter is_softmax ?ls)))"
  proof
    assume "length (filter is_softmax ?ls) = 1"
    then obtain a where "filter is_softmax ?ls = [a]"
      by (cases "filter is_softmax ?ls") simp_all
    with first show "get_softmax_name w = Inr (layer_name (last (filter is_softmax ?ls)))"
      by simp
  qed
  with first ex show ?thesis by blast
qed

lemma ex_wrapper2_softmax_layers:
  "filter is_softmax (layers (model ex_wrapper2)) = [ex_attention, ex_softmax]"
  by (simp add: ex_wrapper2_def KerasModelWrapper_init_def ex_model2_def is_softmax_def
      ex_flatten_def ex_dense_def ex_softmax_def ex_attention_def)

theorem get_softmax_name_first_witness:
  "is_softmax (layers (model ex_wrapper2) ! 1)
    \<and> get_softmax_name ex_wrapper2 = Inr ''attention_1''"
proof -
  have l: "layers (model ex_wrapper2) ! 1 = ex_attention"
    by (simp add: ex_wrapper2_def KerasModelWrapper_init_def ex_model2_def)
  have s: "is_softmax ex_attention"
    by (simp add: is_softmax_def ex_attention_def)
  have "ex_attention \<in> set (layers (model ex_wrapper2))"
    by (simp add: ex_wrapper2_def KerasModelWrapper_init_def ex_model2_def)
  with s have "\<exists>l\<in>set (layers (model ex_wrapper2)). is_softmax l" by blast
  from get_softmax_name_first [OF this]
  have "get_softmax_name ex_wrapper2
      = Inr (layer_name (hd (filter is_softmax (layers (model ex_wrapper2)))))"
    by (rule conjunct1)
  then have "get_softmax_name ex_wrapper2 = Inr ''attention_1''"
    by (simp add: ex_wrapper2_softmax_layers ex_attention_def)
  with l s show ?thesis by simp
qed

text \<open>
  The claim as first stated, that the name returned is that of the last
  softmax-activated layer, fails on the example with two of them: the first,
  \<open>attention_1\<close>, is returned, the last is \<open>activation_1\<close>.
\<close>

theorem get_softmax_name_not_last:
  "filter is_softmax (layers (model ex_wrapper2)) = [ex_attention, ex_softmax]
    \<and> get_softmax_name ex_wrapper2 = Inr ''attention_1''
    \<and> layer_name (last (filter is_softmax (layers (model ex_wrapper2)))) = ''activation_1''
    \<and> get_softmax_name ex_wrapper2
        \<noteq> Inr (layer_name (last (filter is_softmax (layers (model ex_wrapper2)))))"
proof -
  have 1: "get_softmax_name ex_wrapper2 = Inr ''attention_1''"
    by (simp add: get_softmax_name_def ex_wrapper2_def KerasModelWrapper_init_def ex_model2_def
        is_softmax_def ex_flatten_def ex_dense_def ex_softmax_def ex_attention_def)
  have 2: "layer_name (last (filter is_softmax (layers (model ex_wrapper2)))) = ''activation_1''"
    by (simp add: ex_wrapper2_softmax_layers ex_softmax_def)
  from 1 2 ex_wrapper2_softmax_layers show ?thesis by simp
qed

lemma find_by_name:
  "distinct (map layer_name ls) \<Longrightarrow> l \<in> set ls \<Longrightarrow>
   find (\<lambda>l'. layer_name l' = layer_name l) ls = Some l"
  by (induction ls) (auto simp: image_iff)

lemma get_layer_own_name:
  "distinct (map layer_name (layers m)) \<Longrightarrow> l \<in> set (layers m) \<Longrightarrow>
   get_layer m (layer_name l) = Inr l"
  by (simp add: get_layer_def find_by_name)

lemma cache_ok_init: "cache_ok (KerasModelWrapper_init m)"
  by (simp add: cache_ok_def KerasModelWrapper_init_def)

lemma after_call_cache_ok:
  assumes "cache_ok w"
  shows "cache_ok (after_call call w c)"
proof -
  have 1: "cache_ok (w\<lparr>train := t\<rparr>)" for t
    using assms layer_model_frame [of "w\<lparr>train := t\<rparr>" w] by (simp add: cache_ok_def)
  have 2: "cache_ok (fst (snd (fprop call w x)))" for x
    using assms layer_model_frame [of "fst (snd (fprop call w x))" w]
    by (simp add: cache_ok_def fprop_model fprop_modelw_layer)
  from after_call_cases [of call w c] show ?thesis
    using assms 1 2 by (elim disjE exE) (simp_all add: fprop_layer_cache_ok)
qed

lemma after_calls_cache_ok: "cache_ok w \<Longrightarrow> cache_ok (after_calls call w cs)"
  unfolding after_calls_def
  by (induction cs arbitrary: w) (simp_all add: after_call_cache_ok)

lemma get_logits_name_value:
  assumes "get_softmax_name w = Inr s" "get_layer (model w) s = Inr sl"
    "inbound_nodes sl = n # ns" "inbound_layers n = p # ps"
  shows "get_logits_name w = Inr (layer_name p)"
  using assms by (simp add: get_logits_name_def)

lemma fprop_layer_value:
  assumes "cache_ok w" "layer_model w L = Inr m"
  shows "fst (fprop_layer call w x L) = Inr (call m x)"
proof (cases rule: fprop_layer_cases [of w L call x])
  case (hit m')
  with assms have "m' = m" by (simp add: cache_ok_def)
  with hit show ?thesis by simp
next
  case (built m')
  with assms show ?thesis by simp
next
  case (error e)
  with assms show ?thesis by simp
qed

text \<open>
  C1. When \<open>_get_softmax_name\<close> finds a layer name \<open>s\<close>, the layer \<open>get_layer(s)\<close> has a
  first inbound node and that node a first inbound layer \<open>p\<close>, then \<open>fprop_logits(x)\<close>
  is \<open>fprop_layer(x, p.name)\<close>: the name used is that of the first inbound layer of the
  first inbound node of the layer located by \<open>_get_softmax_name\<close>. With a consistent
  per-layer cache its value is the call, on \<open>x\<close>, of the model built from the wrapped
  model's input to the output of the layer of that name, which is \<open>p\<close> itself when the
  layer names are distinct and \<open>p\<close> is a layer of the model.
\<close>

theorem fprop_logits_pre_softmax:
  assumes "get_softmax_name w = Inr s" "get_layer (model w) s = Inr sl"
    "inbound_nodes sl = n # ns" "inbound_layers n = p # ps"
    "cache_ok w" "get_input_at (model w) 0 = Inr inp"
    "get_layer (model w) (layer_name p) = Inr pl"
  shows "get_logits_name w = Inr (layer_name p)
    \<and> fprop_logits call w x = fprop_layer call w x (layer_name p)
    \<and> fst (fprop_logits call w x) = Inr (call (Keras_Model inp (One (layer_output pl))) x)
    \<and> (distinct (map layer_name (layers (model w))) \<and> p \<in> set (layers (model w)) \<longrightarrow> pl = p)"
proof -
  have name: "get_logits_name w = Inr (layer_name p)"
    using assms(1-4) by (rule get_logits_name_value)
  then have same: "fprop_logits call w x = fprop_layer call w x (layer_name p)"
    by (simp add: fprop_logits_def)
  have "layer_model w (layer_name p) = Inr (Keras_Model inp (One (layer_output pl)))"
    using assms(6,7) by (simp add: layer_model_def)
  with assms(5) have "fst (fprop_layer call w x (layer_name p))
      = Inr (call (Keras_Model inp (One (layer_output pl))) x)"
    by (rule fprop_layer_value)
  with same have val: "fst (fprop_logits call w x)
      = Inr (call (Keras_Model inp (One (layer_output pl))) x)"
    by simp
  have "distinct (map layer_name (layers (model w))) \<and> p \<in> set (layers (model w)) \<longrightarrow> pl = p"
    using assms(7) get_layer_own_name [of "model w" p] by auto
  with name same val show ?thesis by blast
qed

lemma ex_after_logits:
  "fprop_logits ex_call ex_wrapper ''x:0''
     = (Inr (One ''dense_1/BiasAdd:0@x:0''),
        ex_wrapper\<lparr>modelw_layer :=
          [''dense_1'' \<mapsto> Keras_Model ''input_1:0'' (One ''dense_1/BiasAdd:0'')]\<rparr>,
        [Built (Keras_Model ''input_1:0'' (One ''dense_1/BiasAdd:0''))])"
  by (simp add: fprop_logits_def get_logits_name_def get_softmax_name_def fprop_layer_def
      ex_wrapper_def KerasModelWrapper_init_def ex_model_def is_softmax_def
      get_input_at_def get_layer_def ex_flatten_def ex_dense_def ex_softmax_def ex_call_def
      ex_apply_def Let_def)

theorem fprop_logits_pre_softmax_witness:
  "get_softmax_name ex_wrapper = Inr ''activation_1''
    \<and> get_layer (model ex_wrapper) ''activation_1'' = Inr ex_softmax
    \<and> inbound_nodes ex_softmax = [Node [ex_dense]]
    \<and> get_logits_name ex_wrapper = Inr ''dense_1''
    \<and> cache_ok (after_calls ex_call ex_wrapper [Call_fprop_logits ''x:0''])
    \<and> fst (fprop_logits ex_call (after_calls ex_call ex_wrapper [Call_fprop_logits ''x:0'']) ''y:0'')
        = Inr (ex_call (Keras_Model ''input_1:0'' (One ''dense_1/BiasAdd:0'')) ''y:0'')"
proof -
  let ?w = "after_calls ex_call ex_wrapper [Call_fprop_logits ''x:0'']"
  have m: "model ?w = ex_model"
    by (simp add: after_calls_model ex_wrapper_def KerasModelWrapper_init_def)
  have m0: "model ex_wrapper = ex_model"
    by (simp add: ex_wrapper_def KerasModelWrapper_init_def)
  have s0: "get_softmax_name ex_wrapper = Inr ''activation_1''"
    by (simp add: get_softmax_name_def m0 ex_model_def is_softmax_def ex_flatten_def
        ex_dense_def ex_softmax_def)
  have s: "get_softmax_name ?w = Inr ''activation_1''"
    using s0 by (simp add: get_softmax_name_def m m0)
  have sl: "get_layer ex_model ''activation_1'' = Inr ex_softmax"
    by (simp add: get_layer_def ex_model_def ex_flatten_def ex_dense_def ex_softmax_def)
  have nodes: "inbound_nodes ex_softmax = Node [ex_dense] # []"
    by (simp add: ex_softmax_def)
  have inb: "inbound_layers (Node [ex_dense]) = ex_dense # []" by simp
  have ok: "cache_ok ?w"
    unfolding ex_wrapper_def by (rule after_calls_cache_ok) (rule cache_ok_init)
  have inp: "get_input_at ex_model 0 = Inr ''input_1:0''"
    by (simp add: get_input_at_def ex_model_def)
  have pl: "get_layer ex_model (layer_name ex_dense) = Inr ex_dense"
    by (simp add: get_layer_def ex_model_def ex_flatten_def ex_dense_def ex_softmax_def)
  have out: "layer_output ex_dense = ''dense_1/BiasAdd:0''" by (simp add: ex_dense_def)
  have nm: "layer_name ex_dense = ''dense_1''" by (simp add: ex_dense_def)
  note main = fprop_logits_pre_softmax [of ?w "''activation_1''" ex_softmax "Node [ex_dense]" "[]"
      ex_dense "[]" "''input_1:0''" ex_dense ex_call "''y:0''", unfolded m, OF s sl nodes inb ok inp pl]
  note nm0 = get_logits_name_value [of ex_wrapper, unfolded m0, OF s0 sl nodes inb]
  from main [unfolded out] have "fst (fprop_logits ex_call ?w ''y:0'')
      = Inr (ex_call (Keras_Model ''input_1:0'' (One ''dense_1/BiasAdd:0'')) ''y:0'')"
    by blast
  with s0 sl nodes ok nm0 show ?thesis by (simp add: m0 nm)
qed

text \<open>Without a softmax-activated layer \<open>fprop_logits\<close> raises the exception of
  \<open>_get_softmax_name\<close>.\<close>

lemma fprop_logits_no_softmax:
  assumes "filter is_softmax (layers (model w)) = []"
  shows "fprop_logits call w x = (Inl (Exception ''No softmax layers found''), w, [])"
proof -
  from assms have "get_softmax_name w = Inl (Exception ''No softmax layers found'')"
    by (simp add: get_softmax_name_def softmax_loop_none)
  then show ?thesis by (simp add: fprop_logits_def get_logits_name_def)
qed

subsection \<open>The caches are filled once\<close>

text \<open>
  C3. After a call \<open>fprop_layer(x, L)\<close> that returned, the cache \<open>modelw_layer\<close> holds
  a model \<open>m\<close> under \<open>L\<close>. Whatever methods are called on the wrapper afterwards, the
  entry under \<open>L\<close> stays \<open>m\<close>, and every call \<open>fprop_layer(x', L)\<close> returns the call of
  \<open>m\<close> on \<open>x'\<close>, leaves the object as it is and builds no Keras model.
\<close>

theorem fprop_layer_cached_forever:
  assumes "fprop_layer call w x L = (Inr r, w1, evs)"
  shows "\<exists>m. modelw_layer w1 L = Some m
    \<and> (\<forall>cs x'. modelw_layer (after_calls call w1 cs) L = Some m
          \<and> fprop_layer call (after_calls call w1 cs) x' L
              = (Inr (call m x'), after_calls call w1 cs, []))"
proof -
  have stored: "\<exists>m. modelw_layer w1 L = Some m"
  proof (cases rule: fprop_layer_cases [of w L call x])
    case (hit m)
    with assms show ?thesis by simp
  next
    case (built m)
    with assms show ?thesis by auto
  next
    case (error e)
    with assms show ?thesis by simp
  qed
  then obtain m where m: "modelw_layer w1 L = Some m" ..
  have "modelw_layer (after_calls call w1 cs) L = Some m
      \<and> fprop_layer call (after_calls call w1 cs) x' L
          = (Inr (call m x'), after_calls call w1 cs, [])" for cs x'
  proof -
    from m have "modelw_layer (after_calls call w1 cs) L = Some m"
      by (rule after_calls_keeps_layer)
    then show ?thesis by (simp add: fprop_layer_hit)
  qed
  with m show ?thesis by blast
qed

lemma ex_first_fprop_layer:
  "fprop_layer ex_call ex_wrapper ''x:0'' ''dense_1''
     = (Inr (One ''dense_1/BiasAdd:0@x:0''),
        ex_wrapper\<lparr>modelw_layer :=
          [''dense_1'' \<mapsto> Keras_Model ''input_1:0'' (One ''dense_1/BiasAdd:0'')]\<rparr>,
        [Built (Keras_Model ''input_1:0'' (One ''dense_1/BiasAdd:0''))])"
  by (simp add: fprop_layer_def ex_wrapper_def KerasModelWrapper_init_def ex_model_def
      get_input_at_def get_layer_def ex_flatten_def ex_dense_def ex_softmax_def ex_call_def
      ex_apply_def Let_def)

theorem fprop_layer_cached_forever_witness:
  "fprop_layer ex_call ex_wrapper ''x:0'' ''dense_1''
     = (Inr (One ''dense_1/BiasAdd:0@x:0''),
        ex_wrapper\<lparr>modelw_layer :=
          [''dense_1'' \<mapsto> Keras_Model ''input_1:0'' (One ''dense_1/BiasAdd:0'')]\<rparr>,
        [Built (Keras_Model ''input_1:0'' (One ''dense_1/BiasAdd:0''))])
   \<and> fprop_layer ex_call
        (after_calls ex_call
          (ex_wrapper\<lparr>modelw_layer :=
             [''dense_1'' \<mapsto> Keras_Model ''input_1:0'' (One ''dense_1/BiasAdd:0'')]\<rparr>)
          [Call_set_train True, Call_fprop ''y:0'', Call_fprop_probs ''y:0''])
        ''z:0'' ''dense_1''
     = (Inr (ex_call (Keras_Model ''input_1:0'' (One ''dense_1/BiasAdd:0'')) ''z:0''),
        after_calls ex_call
          (ex_wrapper\<lparr>modelw_layer :=
             [''dense_1'' \<mapsto> Keras_Model ''input_1:0'' (One ''dense_1/BiasAdd:0'')]\<rparr>)
          [Call_set_train True, Call_fprop ''y:0'', Call_fprop_probs ''y:0''],
        [])"
  (is "?first \<and> ?later")
proof
  show ?first by (rule ex_first_fprop_layer)
next
  let ?m = "Keras_Model ''input_1:0'' (One ''dense_1/BiasAdd:0'')"
  let ?w1 = "ex_wrapper\<lparr>modelw_layer := [''dense_1'' \<mapsto> ?m]\<rparr>"
  let ?cs = "[Call_set_train True, Call_fprop ''y:0'', Call_fprop_probs ''y:0'']"
  from fprop_layer_cached_forever [OF ex_first_fprop_layer]
  obtain m where m: "modelw_layer ?w1 ''dense_1'' = Some m"
    and later: "\<forall>cs x'. modelw_layer (after_calls ex_call ?w1 cs) ''dense_1'' = Some m
          \<and> fprop_layer ex_call (after_calls ex_call ?w1 cs) x' ''dense_1''
              = (Inr (ex_call m x'), after_calls ex_call ?w1 cs, [])"
    by (elim exE conjE)
  from m have eq: "m = ?m" by simp
  from later have "fprop_layer ex_call (after_calls ex_call ?w1 ?cs) ''z:0'' ''dense_1''
      = (Inr (ex_call m ''z:0''), after_calls ex_call ?w1 ?cs, [])"
    by (elim allE conjE)
  then show ?later unfolding eq .
qed

text \<open>
  C4. On a wrapper whose \<open>modelw\<close> is None and for which \<open>_create_modelw\<close> returns a
  model \<open>m\<close>, \<open>fprop\<close> builds exactly \<open>m\<close>. Whatever methods are called afterwards,
  \<open>modelw\<close> stays \<open>m\<close>, and every later \<open>fprop(x')\<close> builds nothing, leaves the object
  as it is and returns what \<open>fprop(x')\<close> returns on a fresh wrapper of the same Keras
  model. A model is built by \<open>fprop\<close> only when \<open>modelw\<close> is None.
\<close>

theorem fprop_builds_once:
  assumes "modelw w = None" "create_modelw w = Inr m"
  shows "snd (snd (fprop call w x)) = [Built m]
    \<and> (\<forall>cs x'.
          modelw (after_calls call (fst (snd (fprop call w x))) cs) = Some m
          \<and> snd (snd (fprop call (after_calls call (fst (snd (fprop call w x))) cs) x')) = []
          \<and> fst (snd (fprop call (after_calls call (fst (snd (fprop call w x))) cs) x'))
              = after_calls call (fst (snd (fprop call w x))) cs
          \<and> fst (fprop call (after_calls call (fst (snd (fprop call w x))) cs) x')
              = fst (fprop call (KerasModelWrapper_init (model w)) x'))
    \<and> (\<forall>w' x'. modelw w' \<noteq> None \<longrightarrow> snd (snd (fprop call w' x')) = [])"
proof (intro conjI allI)
  let ?w1 = "fst (snd (fprop call w x))"
  from assms have first: "fprop call w x = fprop_outputs call (w\<lparr>modelw := Some m\<rparr>) m x [Built m]"
    by (simp add: fprop_def)
  then show "snd (snd (fprop call w x)) = [Built m]"
    by (simp add: fprop_outputs_events)
  from first have w1: "?w1 = w\<lparr>modelw := Some m\<rparr>"
    by (simp add: fprop_outputs_state)
  fix cs x'
  let ?w2 = "after_calls call ?w1 cs"
  let ?w0 = "KerasModelWrapper_init (model w) :: 'a KerasModelWrapper"
  from w1 have "modelw ?w1 = Some m" by simp
  then show cached: "modelw ?w2 = Some m" by (rule after_calls_keeps_modelw)
  then have again: "fprop call ?w2 x' = fprop_outputs call ?w2 m x' []"
    by (simp add: fprop_def)
  then show "snd (snd (fprop call ?w2 x')) = []"
    by (simp add: fprop_outputs_events)
  from again show "fst (snd (fprop call ?w2 x')) = ?w2"
    by (simp add: fprop_outputs_state)
  have model2: "model ?w2 = model w"
    using w1 by (simp add: after_calls_model)
  have model0: "model ?w0 = model w"
    by (simp add: KerasModelWrapper_init_def)
  have "modelw ?w0 = None" by (simp add: KerasModelWrapper_init_def)
  moreover from create_modelw_frame [OF model0] assms(2) have "create_modelw ?w0 = Inr m"
    by simp
  ultimately have fresh: "fprop call ?w0 x'
      = fprop_outputs call (?w0\<lparr>modelw := Some m\<rparr>) m x' [Built m]"
    by (simp add: fprop_def)
  have "get_layer_names ?w2 = get_layer_names (?w0\<lparr>modelw := Some m\<rparr>)"
    using model2 model0 by (simp add: get_layer_names_def)
  then have "fst (fprop_outputs call ?w2 m x' [])
      = fst (fprop_outputs call (?w0\<lparr>modelw := Some m\<rparr>) m x' [Built m])"
    by (rule fprop_outputs_result)
  with again fresh show "fst (fprop call ?w2 x') = fst (fprop call ?w0 x')" by simp
next
  fix w' :: "'a KerasModelWrapper" and x'
  show "modelw w' \<noteq> None \<longrightarrow> snd (snd (fprop call w' x')) = []"
    by (cases "modelw w'") (simp_all add: fprop_def fprop_outputs_events)
qed

lemma ex_create_modelw:
  "create_modelw ex_wrapper
     = Inr (Keras_Model ''input_1:0''
         (Many [''flatten_1/Reshape:0'', ''dense_1/BiasAdd:0'', ''activation_1/Softmax:0'']))"
  by (simp add: create_modelw_def get_layer_names_def ex_wrapper_def KerasModelWrapper_init_def
      ex_model_def get_input_at_def get_layer_def ex_flatten_def ex_dense_def ex_softmax_def
      Let_def)

theorem fprop_builds_once_witness:
  "modelw ex_wrapper = None
    \<and> snd (snd (fprop ex_call ex_wrapper ''x:0''))
        = [Built (Keras_Model ''input_1:0''
            (Many [''flatten_1/Reshape:0'', ''dense_1/BiasAdd:0'', ''activation_1/Softmax:0'']))]
    \<and> snd (snd (fprop ex_call
          (after_calls ex_call (fst (snd (fprop ex_call ex_wrapper ''x:0'')))
             [Call_set_train True, Call_fprop_logits ''y:0''])
          ''z:0'')) = []
    \<and> fst (fprop ex_call
          (after_calls ex_call (fst (snd (fprop ex_call ex_wrapper ''x:0'')))
             [Call_set_train True, Call_fprop_logits ''y:0''])
          ''z:0'')
        = fst (fprop ex_call (KerasModelWrapper_init (model ex_wrapper)) ''z:0'')"
proof -
  have none: "modelw ex_wrapper = None"
    by (simp add: ex_wrapper_def KerasModelWrapper_init_def)
  note once = fprop_builds_once [OF none ex_create_modelw, of ex_call "''x:0''"]
  from once have 1: "snd (snd (fprop ex_call ex_wrapper ''x:0''))
        = [Built (Keras_Model ''input_1:0''
            (Many [''flatten_1/Reshape:0'', ''dense_1/BiasAdd:0'', ''activation_1/Softmax:0'']))]"
    by (rule conjunct1)
  from once have later: "\<forall>cs x'.
      modelw (after_calls ex_call (fst (snd (fprop ex_call ex_wrapper ''x:0''))) cs)
        = Some (Keras_Model ''input_1:0''
            (Many [''flatten_1/Reshape:0'', ''dense_1/BiasAdd:0'', ''activation_1/Softmax:0'']))
      \<and> snd (snd (fprop ex_call
            (after_calls ex_call (fst (snd (fprop ex_call ex_wrapper ''x:0''))) cs) x')) = []
      \<and> fst (snd (fprop ex_call
            (after_calls ex_call (fst (snd (fprop ex_call ex_wrapper ''x:0''))) cs) x'))
          = after_calls ex_call (fst (snd (fprop ex_call ex_wrapper ''x:0''))) cs
      \<and> fst (fprop ex_call
            (after_calls ex_call (fst (snd (fprop ex_call ex_wrapper ''x:0''))) cs) x')
          = fst (fprop ex_call (KerasModelWrapper_init (model ex_wrapper)) x')"
    by (elim conjE)
  from later have 2: "snd (snd (fprop ex_call
          (after_calls ex_call (fst (snd (fprop ex_call ex_wrapper ''x:0'')))
             [Call_set_train True, Call_fprop_logits ''y:0''])
          ''z:0'')) = []"
    by (elim allE conjE)
  from later have 3: "fst (fprop ex_call
          (after_calls ex_call (fst (snd (fprop ex_call ex_wrapper ''x:0'')))
             [Call_set_train True, Call_fprop_logits ''y:0''])
          ''z:0'')
        = fst (fprop ex_call (KerasModelWrapper_init (model ex_wrapper)) ''z:0'')"
    by (elim allE conjE)
  from none 1 2 3 show ?thesis by (intro conjI)
qed






text \<open>
  Both caches are consistent in a new wrapper and stay so under every method call (see
  also \<open>cache_ok_init\<close> and \<open>after_calls_cache_ok\<close>).
\<close>

lemma modelw_ok_init: "modelw_ok (KerasModelWrapper_init m)"
  by (simp add: modelw_ok_def KerasModelWrapper_init_def)

lemma modelw_ok_frame:
  "modelw_ok w \<Longrightarrow> model w' = model w \<Longrightarrow> modelw w' = modelw w \<Longrightarrow> modelw_ok w'"
  using create_modelw_frame [of w' w] by (simp add: modelw_ok_def split: option.splits)

lemma fprop_modelw_ok:
  assumes "modelw_ok w"
  shows "modelw_ok (fst (snd (fprop call w x)))"
proof (cases rule: fprop_cases [of w call x])
  case (cached m)
  with assms show ?thesis by (simp add: fprop_outputs_state)
next
  case (built m)
  have "create_modelw (w\<lparr>modelw := Some m\<rparr>) = create_modelw w"
    by (rule create_modelw_frame) simp
  with built show ?thesis by (simp add: fprop_outputs_state modelw_ok_def)
next
  case (error e)
  with assms show ?thesis by simp
qed

lemma after_call_modelw_ok:
  assumes "modelw_ok w"
  shows "modelw_ok (after_call call w c)"
proof -
  have 1: "modelw_ok (w\<lparr>train := t\<rparr>)" for t
    using assms by (rule modelw_ok_frame) simp_all
  have 2: "modelw_ok (fst (snd (fprop_layer call w x L)))" for x L
    using assms by (rule modelw_ok_frame) (simp_all add: fprop_layer_model fprop_layer_modelw)
  from after_call_cases [of call w c] show ?thesis
    using assms 1 2 by (elim disjE exE) (simp_all add: fprop_modelw_ok)
qed

lemma after_calls_modelw_ok: "modelw_ok w \<Longrightarrow> modelw_ok (after_calls call w cs)"
  unfolding after_calls_def
  by (induction cs arbitrary: w) (simp_all add: after_call_modelw_ok)


subsection \<open>The dictionary of all layers\<close>




end
